theory Spec2Isabelle
  imports Main "HOL-Library.Sublist" "HOL-Library.Multiset" "HOL-Library.Char_ord"
    "HOL-Library.List_Lexorder"
begin

section \<open>JavaScript string primitives used by the pages\<close>

text \<open>
  Strings are lists of code units. The model covers the code units below 256 (the Latin-1
  block of the Basic Multilingual Plane), on which \<open>String.prototype.toLowerCase\<close>,
  \<open>String.prototype.trim\<close> and \<open>String.prototype.includes\<close> are the functions below.
\<close>

definition toLowerCase_char :: "char \<Rightarrow> char" where
  "toLowerCase_char c =
     (let n = (of_char c :: nat) in
      if (65 \<le> n \<and> n \<le> 90) \<or> (192 \<le> n \<and> n \<le> 222 \<and> n \<noteq> 215)
      then char_of (n + 32) else c)"

definition toLowerCase :: "string \<Rightarrow> string" where
  "toLowerCase s = map toLowerCase_char s"

text \<open>White space and line terminators of ECMAScript below code unit 256:
  TAB, LF, VT, FF, CR, SP and NBSP.\<close>

definition is_whitespace :: "char \<Rightarrow> bool" where
  "is_whitespace c = ((of_char c :: nat) \<in> {9, 10, 11, 12, 13, 32, 160})"

definition trim :: "string \<Rightarrow> string" where
  "trim s = rev (dropWhile is_whitespace (rev (dropWhile is_whitespace s)))"

text \<open>\<open>s.includes(t)\<close>: \<open>t\<close> occurs in \<open>s\<close> at some position.\<close>

fun str_includes :: "string \<Rightarrow> string \<Rightarrow> bool" where
  "str_includes [] t = (t = [])"
| "str_includes (c # s) t = (prefix t (c # s) \<or> str_includes s t)"

text \<open>\<open>arr.includes(x)\<close> on an array of strings.\<close>

definition array_includes :: "string list \<Rightarrow> string \<Rightarrow> bool" where
  "array_includes xs x = (x \<in> set xs)"

section \<open>Data model\<close>

type_synonym uuid = nat

text \<open>A row of the \<open>profiles\<close> table; \<open>pid\<close> is its column \<open>id\<close>. \<open>created_at\<close> and \<open>updated_at\<close> are the
  timestamps as \<open>new Date(...).getTime()\<close> reads them (milliseconds since the epoch).
  The array columns are nullable and the pages read them through \<open>?.\<close>, so they are
  optional here.\<close>

record Profile =
  pid :: uuid
  user_id :: uuid
  name :: string
  email :: string
  location :: "string option"
  bio :: "string option"
  avatar_url :: "string option"
  skills_offered :: "string list option"
  skills_wanted :: "string list option"
  availability :: string
  is_public :: bool
  created_at :: int
  updated_at :: int

section \<open>Browse page: \<open>applyFilters\<close>\<close>

text \<open>\<open>arr?.some(skill => skill.toLowerCase().includes(term.toLowerCase()))\<close>;
  an absent array gives \<open>undefined\<close>, which is falsy.\<close>

definition some_skill_includes :: "string list option \<Rightarrow> string \<Rightarrow> bool" where
  "some_skill_includes arr term =
     (case arr of None \<Rightarrow> False
      | Some skills \<Rightarrow> list_ex (\<lambda>skill. str_includes (toLowerCase skill) (toLowerCase term)) skills)"

definition matchesSearch :: "string \<Rightarrow> Profile \<Rightarrow> bool" where
  "matchesSearch searchTerm profile =
     (searchTerm = [] \<or>
      some_skill_includes (skills_offered profile) searchTerm \<or>
      some_skill_includes (skills_wanted profile) searchTerm \<or>
      str_includes (toLowerCase (name profile)) (toLowerCase searchTerm))"

text \<open>\<open>profile.location && ...\<close>: a null and an empty location are both falsy.\<close>

definition matchesLocation :: "string \<Rightarrow> Profile \<Rightarrow> bool" where
  "matchesLocation locationFilter profile =
     (locationFilter = [] \<or>
      (case location profile of None \<Rightarrow> False
       | Some l \<Rightarrow> l \<noteq> [] \<and> str_includes (toLowerCase l) (toLowerCase locationFilter)))"

definition matchesAvailability :: "string \<Rightarrow> Profile \<Rightarrow> bool" where
  "matchesAvailability availabilityFilter profile =
     (availabilityFilter = ''all'' \<or>
      toLowerCase (availability profile) = toLowerCase availabilityFilter)"

text \<open>\<open>(b.skills_offered?.length || 0)\<close>\<close>

definition skills_count :: "Profile \<Rightarrow> int" where
  "skills_count p = (case skills_offered p of None \<Rightarrow> 0 | Some skills \<Rightarrow> int (length skills))"

text \<open>The comparator handed to \<open>filtered.sort\<close>. \<open>String.prototype.localeCompare\<close> is the
  collation of the host's locale; it is a parameter of the model.\<close>

definition compareProfiles ::
  "(string \<Rightarrow> string \<Rightarrow> int) \<Rightarrow> string \<Rightarrow> Profile \<Rightarrow> Profile \<Rightarrow> int" where
  "compareProfiles localeCompare sortBy a b =
     (if sortBy = ''newest'' then created_at b - created_at a
      else if sortBy = ''oldest'' then created_at a - created_at b
      else if sortBy = ''name'' then localeCompare (name a) (name b)
      else if sortBy = ''skills'' then skills_count b - skills_count a
      else 0)"

text \<open>\<open>Array.prototype.sort(cmp)\<close> is a stable sort: an element stays in front of the
  later elements that the comparator does not put before it.\<close>

fun insert_sorted :: "('a \<Rightarrow> 'a \<Rightarrow> int) \<Rightarrow> 'a \<Rightarrow> 'a list \<Rightarrow> 'a list" where
  "insert_sorted cmp x [] = [x]"
| "insert_sorted cmp x (y # ys) =
     (if cmp x y \<le> 0 then x # y # ys else y # insert_sorted cmp x ys)"

definition array_sort :: "('a \<Rightarrow> 'a \<Rightarrow> int) \<Rightarrow> 'a list \<Rightarrow> 'a list" where
  "array_sort cmp xs = foldr (insert_sorted cmp) xs []"

definition applyFilters ::
  "(string \<Rightarrow> string \<Rightarrow> int) \<Rightarrow> Profile list \<Rightarrow> string \<Rightarrow> string \<Rightarrow> string \<Rightarrow> string
     \<Rightarrow> Profile list" where
  "applyFilters localeCompare profiles searchTerm locationFilter availabilityFilter sortBy =
     (let filtered = filter (\<lambda>profile.
            matchesSearch searchTerm profile \<and>
            matchesLocation locationFilter profile \<and>
            matchesAvailability availabilityFilter profile) profiles
      in array_sort (compareProfiles localeCompare sortBy) filtered)"

section \<open>Row-level policies of \<open>create-tables.sql\<close>\<close>

text \<open>\<open>auth.uid()\<close> is the calling principal, absent for an anonymous session.\<close>

definition profiles_select_policy :: "uuid option \<Rightarrow> Profile \<Rightarrow> bool" where
  "profiles_select_policy uid p = (is_public p = True \<or> uid = Some (user_id p))"

definition profiles_insert_policy :: "uuid option \<Rightarrow> Profile \<Rightarrow> bool" where
  "profiles_insert_policy uid p = (uid = Some (user_id p))"

definition profiles_update_policy :: "uuid option \<Rightarrow> Profile \<Rightarrow> bool" where
  "profiles_update_policy uid p = (uid = Some (user_id p))"

text \<open>Browse page, \<open>fetchProfiles\<close>:
  \<open>select("*").eq("is_public", true).order("created_at", {ascending: false})\<close>
  over the rows the select policies show to the caller.\<close>

definition browse_fetchProfiles :: "uuid option \<Rightarrow> Profile list \<Rightarrow> Profile list" where
  "browse_fetchProfiles uid rows =
     array_sort (\<lambda>a b. created_at b - created_at a)
       (filter (\<lambda>p. profiles_select_policy uid p \<and> is_public p = True) rows)"

text \<open>The list the browse page shows: the fetched snapshot, filtered and sorted.\<close>

definition browse_page ::
  "(string \<Rightarrow> string \<Rightarrow> int) \<Rightarrow> uuid option \<Rightarrow> Profile list \<Rightarrow> string \<Rightarrow> string \<Rightarrow> string
     \<Rightarrow> string \<Rightarrow> Profile list" where
  "browse_page localeCompare uid rows searchTerm locationFilter availabilityFilter sortBy =
     applyFilters localeCompare (browse_fetchProfiles uid rows)
       searchTerm locationFilter availabilityFilter sortBy"

section \<open>Skill requests, sessions and data store errors\<close>

text \<open>A row of the \<open>skill_requests\<close> table; \<open>rid\<close>, \<open>req_created_at\<close> and
  \<open>req_updated_at\<close> are its columns \<open>id\<close>, \<open>created_at\<close> and \<open>updated_at\<close>.\<close>

datatype status = pending | accepted | declined | completed

record SkillRequest =
  rid :: uuid
  from_user_id :: uuid
  to_user_id :: uuid
  message :: string
  skill_offered :: string
  skill_wanted :: string
  status :: status
  req_created_at :: int
  req_updated_at :: int

record db =
  profiles_table :: "Profile list"
  skill_requests_table :: "SkillRequest list"

text \<open>The session principal of \<open>useAuth\<close>.\<close>

record AuthUser =
  auth_id :: uuid
  auth_email :: string

text \<open>Errors the data store answers with: no single row (\<open>PGRST116\<close>), a row-level
  policy refusing the statement, a unique or primary key violated, a foreign key violated.\<close>

datatype pg_error = PGRST116 | rls_violation | unique_violation | foreign_key_violation

text \<open>What a page holds in its \<open>error\<close> state: a literal text (\<open>""\<close> when cleared) or
  the message of a data store error.\<close>

datatype ui_message = Text string | FromStore pg_error

definition requests_select_policy :: "uuid option \<Rightarrow> SkillRequest \<Rightarrow> bool" where
  "requests_select_policy uid r = (uid = Some (from_user_id r) \<or> uid = Some (to_user_id r))"

definition requests_insert_policy :: "uuid option \<Rightarrow> SkillRequest \<Rightarrow> bool" where
  "requests_insert_policy uid r = (uid = Some (from_user_id r))"

definition requests_update_policy :: "uuid option \<Rightarrow> SkillRequest \<Rightarrow> bool" where
  "requests_update_policy uid r = (uid = Some (to_user_id r))"

section \<open>Data store operations the pages call\<close>

text \<open>\<open>.single()\<close>: the one row of the result, or \<open>PGRST116\<close> when there are none or
  several.\<close>

definition single :: "'a list \<Rightarrow> pg_error + 'a" where
  "single rows = (case rows of [x] \<Rightarrow> Inr x | _ \<Rightarrow> Inl PGRST116)"

text \<open>\<open>from("profiles").select("*").eq("user_id", uid).single()\<close>\<close>

definition select_profile_by_user :: "uuid \<Rightarrow> Profile list \<Rightarrow> pg_error + Profile" where
  "select_profile_by_user uid rows =
     single (filter (\<lambda>p. profiles_select_policy (Some uid) p \<and> user_id p = uid) rows)"

text \<open>\<open>from("profiles").select("*").eq("id", i).eq("is_public", true).single()\<close>\<close>

definition select_public_profile_by_id ::
  "uuid option \<Rightarrow> uuid \<Rightarrow> Profile list \<Rightarrow> pg_error + Profile" where
  "select_public_profile_by_id uid i rows =
     single (filter (\<lambda>p. profiles_select_policy uid p \<and> pid p = i \<and> is_public p = True) rows)"

text \<open>\<open>from("profiles").upsert(row)\<close> with no \<open>onConflict\<close>: an insert whose conflict
  target is the primary key. \<open>row\<close> is the proposed row, its \<open>id\<close> generated and its
  other absent columns at their defaults. A row with that \<open>id\<close> is updated with the
  submitted columns instead; \<open>UNIQUE(user_id)\<close> is checked on both paths.\<close>

definition profiles_upsert ::
  "uuid option \<Rightarrow> Profile \<Rightarrow> Profile list \<Rightarrow> pg_error + Profile list" where
  "profiles_upsert uid row rows =
     (if \<not> profiles_insert_policy uid row then Inl rls_violation
      else case find (\<lambda>p. pid p = pid row) rows of
        None \<Rightarrow>
          if user_id row \<in> set (map user_id rows) then Inl unique_violation
          else Inr (rows @ [row])
      | Some old \<Rightarrow>
          let new = old\<lparr>user_id := user_id row, name := name row, email := email row,
                        location := location row, bio := bio row,
                        skills_offered := skills_offered row,
                        skills_wanted := skills_wanted row,
                        availability := availability row, is_public := is_public row,
                        updated_at := updated_at row\<rparr>
          in if \<not> profiles_update_policy uid old \<or> \<not> profiles_update_policy uid new
             then Inl rls_violation
             else if user_id new \<in> set (map user_id (filter (\<lambda>p. pid p \<noteq> pid row) rows))
             then Inl unique_violation
             else Inr (map (\<lambda>p. if pid p = pid row then new else p) rows))"

text \<open>\<open>from("skill_requests").insert(row)\<close>: the insert policy, the primary key, then
  the foreign keys of both parties into \<open>profiles(user_id)\<close>.\<close>

definition skill_requests_insert :: "uuid option \<Rightarrow> SkillRequest \<Rightarrow> db \<Rightarrow> pg_error + db" where
  "skill_requests_insert uid row d =
     (if \<not> requests_insert_policy uid row then Inl rls_violation
      else if rid row \<in> set (map rid (skill_requests_table d)) then Inl unique_violation
      else if from_user_id row \<notin> set (map user_id (profiles_table d)) \<or>
              to_user_id row \<notin> set (map user_id (profiles_table d))
      then Inl foreign_key_violation
      else Inr (d\<lparr>skill_requests_table := skill_requests_table d @ [row]\<rparr>))"

text \<open>\<open>from("skill_requests").update({status, updated_at}).eq("id", requestId)\<close>: every
  row with that id which the policies let the caller see and update is rewritten; the
  others stay, and a statement that rewrites no row is no error.\<close>

definition skill_requests_update_status ::
  "uuid option \<Rightarrow> uuid \<Rightarrow> status \<Rightarrow> int \<Rightarrow> SkillRequest list \<Rightarrow> SkillRequest list" where
  "skill_requests_update_status uid requestId action now rows =
     map (\<lambda>r. if rid r = requestId \<and> requests_select_policy uid r \<and> requests_update_policy uid r
              then r\<lparr>status := action, req_updated_at := now\<rparr> else r) rows"

section \<open>Dashboard page: \<open>handleRequestAction\<close>\<close>

text \<open>Returns the data store after the call and the error the page shows, if any; the
  reload of the lists that follows (\<open>fetchUserData\<close>) only reads.
  \<open>updateRequestStatus\<close> of the older dashboard is the same statement.\<close>

definition handleRequestAction ::
  "AuthUser option \<Rightarrow> uuid \<Rightarrow> status \<Rightarrow> int \<Rightarrow> db \<Rightarrow> db \<times> ui_message option" where
  "handleRequestAction user requestId action now d =
     (d\<lparr>skill_requests_table :=
          skill_requests_update_status (map_option auth_id user) requestId action now
            (skill_requests_table d)\<rparr>,
      None)"

section \<open>Profile creation page\<close>

record FormData =
  form_name :: string
  form_location :: string
  form_bio :: string
  form_skills_offered :: "string list"
  form_skills_wanted :: "string list"
  form_availability :: string
  form_is_public :: bool

record FormState =
  formData :: FormData
  skillInput :: string
  wantedSkillInput :: string

datatype skill_type = offered | wanted

text \<open>\<open>addSkill\<close>, the same function on the creation page and on the edit page.\<close>

definition addSkill :: "string \<Rightarrow> skill_type \<Rightarrow> FormState \<Rightarrow> FormState" where
  "addSkill skill type st =
     (if trim skill = [] then st
      else
        let st1 =
          (case type of
             offered \<Rightarrow>
               if \<not> array_includes (form_skills_offered (formData st)) (trim skill)
               then st\<lparr>formData := (formData st)
                      \<lparr>form_skills_offered := form_skills_offered (formData st) @ [trim skill]\<rparr>\<rparr>
               else st
           | wanted \<Rightarrow>
               if \<not> array_includes (form_skills_wanted (formData st)) (trim skill)
               then st\<lparr>formData := (formData st)
                      \<lparr>form_skills_wanted := form_skills_wanted (formData st) @ [trim skill]\<rparr>\<rparr>
               else st)
        in (case type of
              offered \<Rightarrow> st1\<lparr>skillInput := []\<rparr>
            | wanted \<Rightarrow> st1\<lparr>wantedSkillInput := []\<rparr>))"

text \<open>What \<open>checkExistingProfile\<close> leaves the page with.\<close>

datatype check_outcome = redirect_dashboard | show_form | show_form_error pg_error

definition checkExistingProfile :: "AuthUser \<Rightarrow> db \<Rightarrow> check_outcome" where
  "checkExistingProfile u d =
     (case select_profile_by_user (auth_id u) (profiles_table d) of
        Inr data \<Rightarrow> redirect_dashboard
      | Inl e \<Rightarrow> if e \<noteq> PGRST116 then show_form_error e else show_form)"

text \<open>\<open>formData.location || null\<close>\<close>

definition or_null :: "string \<Rightarrow> string option" where
  "or_null s = (if s = [] then None else Some s)"

datatype submit_outcome = not_signed_in | pushed_dashboard | submit_error pg_error

definition handleSubmit ::
  "AuthUser option \<Rightarrow> FormData \<Rightarrow> uuid \<Rightarrow> int \<Rightarrow> db \<Rightarrow> db \<times> submit_outcome" where
  "handleSubmit user fd new_id now d =
     (case user of
        None \<Rightarrow> (d, not_signed_in)
      | Some u \<Rightarrow>
          (case profiles_upsert (Some (auth_id u))
                  \<lparr>pid = new_id, user_id = auth_id u, name = form_name fd,
                   email = auth_email u, location = or_null (form_location fd),
                   bio = or_null (form_bio fd), avatar_url = None,
                   skills_offered = Some (form_skills_offered fd),
                   skills_wanted = Some (form_skills_wanted fd),
                   availability = form_availability fd, is_public = form_is_public fd,
                   created_at = now, updated_at = now\<rparr> (profiles_table d) of
             Inl e \<Rightarrow> (d, submit_error e)
           | Inr rows \<Rightarrow> (d\<lparr>profiles_table := rows\<rparr>, pushed_dashboard)))"

section \<open>Profile view page: \<open>fetchProfiles\<close> and \<open>handleSendRequest\<close>\<close>

text \<open>The state variables of the page; \<open>pushed\<close> is the route given to
  \<open>router.push\<close>, if any.\<close>

record ProfilePageState =
  user :: "AuthUser option"
  profile :: "Profile option"
  currentUserProfile :: "Profile option"
  requestMessage :: string
  selectedSkillOffered :: string
  selectedSkillWanted :: string
  isRequestDialogOpen :: bool
  loading :: bool
  sending :: bool
  error :: ui_message
  success :: string
  pushed :: "string option"

definition fetchProfiles :: "uuid \<Rightarrow> db \<Rightarrow> ProfilePageState \<Rightarrow> ProfilePageState" where
  "fetchProfiles param_id d st =
     (let st1 = st\<lparr>loading := True, error := Text []\<rparr> in
      case select_public_profile_by_id (map_option auth_id (user st)) param_id (profiles_table d) of
        Inl viewedProfileError \<Rightarrow> st1\<lparr>error := FromStore viewedProfileError, loading := False\<rparr>
      | Inr viewedProfileData \<Rightarrow>
          let st2 = st1\<lparr>profile := Some viewedProfileData\<rparr> in
          (case user st of
             None \<Rightarrow> st2\<lparr>loading := False\<rparr>
           | Some u \<Rightarrow>
               (case select_profile_by_user (auth_id u) (profiles_table d) of
                  Inl currentProfileError \<Rightarrow>
                    (if currentProfileError \<noteq> PGRST116
                     then st2\<lparr>error := FromStore currentProfileError\<rparr> else st2)
                      \<lparr>currentUserProfile := None, loading := False\<rparr>
                | Inr currentProfileData \<Rightarrow>
                    st2\<lparr>currentUserProfile := Some currentProfileData, loading := False\<rparr>)))"

text \<open>\<open>new_id\<close> and \<open>now\<close> are what \<open>gen_random_uuid()\<close> and \<open>NOW()\<close> give the
  inserted row.\<close>

definition handleSendRequest ::
  "uuid \<Rightarrow> int \<Rightarrow> db \<Rightarrow> ProfilePageState \<Rightarrow> db \<times> ProfilePageState" where
  "handleSendRequest new_id now d st =
     (case (user st, profile st, currentUserProfile st) of
        (Some u, Some prof, Some cur) \<Rightarrow>
          if trim (requestMessage st) = [] \<or> selectedSkillOffered st = [] \<or>
             selectedSkillWanted st = []
          then (d, st\<lparr>error := Text ''Please fill in all fields''\<rparr>)
          else
            (case skill_requests_insert (Some (auth_id u))
                    \<lparr>rid = new_id, from_user_id = auth_id u, to_user_id = user_id prof,
                     message = trim (requestMessage st),
                     skill_offered = selectedSkillOffered st,
                     skill_wanted = selectedSkillWanted st,
                     status = pending, req_created_at = now, req_updated_at = now\<rparr> d of
               Inl e \<Rightarrow> (d, st\<lparr>sending := False, error := FromStore e\<rparr>)
             | Inr d' \<Rightarrow>
                 (d', st\<lparr>sending := False, error := Text [],
                         success := ''Request sent successfully!'',
                         isRequestDialogOpen := False, requestMessage := [],
                         selectedSkillOffered := [], selectedSkillWanted := []\<rparr>))
      | _ \<Rightarrow> (d, st\<lparr>pushed := Some ''/auth/login''\<rparr>))"

section \<open>Notions of the specification\<close>

text \<open>\<open>t\<close> is a case-insensitive substring of \<open>s\<close>: after lowering both, \<open>s\<close> splits
  into a part before \<open>t\<close>, \<open>t\<close> itself and a part after it.\<close>

definition ci_substring :: "string \<Rightarrow> string \<Rightarrow> bool" where
  "ci_substring t s = (\<exists>before after. toLowerCase s = before @ toLowerCase t @ after)"

text \<open>Two strings are equal under case-insensitive comparison: same length, and the
  same character up to case at every position.\<close>

definition ci_equal :: "string \<Rightarrow> string \<Rightarrow> bool" where
  "ci_equal a b =
     (length a = length b \<and> (\<forall>i < length a. toLowerCase_char (a ! i) = toLowerCase_char (b ! i)))"

text \<open>The entries of an array column; a null column has none.\<close>

definition entries :: "string list option \<Rightarrow> string set" where
  "entries arr = (case arr of None \<Rightarrow> {} | Some xs \<Rightarrow> set xs)"

text \<open>A comparator is consistent when "not after" is total and transitive.\<close>

definition consistent_comparator :: "('a \<Rightarrow> 'a \<Rightarrow> int) \<Rightarrow> bool" where
  "consistent_comparator cmp =
     ((\<forall>a b. cmp a b \<le> 0 \<or> cmp b a \<le> 0) \<and>
      (\<forall>a b c. cmp a b \<le> 0 \<and> cmp b c \<le> 0 \<longrightarrow> cmp a c \<le> 0))"

text \<open>The skills list that \<open>addSkill\<close> addresses with \<open>formData[field]\<close>.\<close>

definition skills_field :: "skill_type \<Rightarrow> FormState \<Rightarrow> string list" where
  "skills_field type st =
     (case type of offered \<Rightarrow> form_skills_offered (formData st)
      | wanted \<Rightarrow> form_skills_wanted (formData st))"

text \<open>A collation that compares code units from the left, as one consistent
  instance of \<open>localeCompare\<close>.\<close>

definition code_unit_compare :: "string \<Rightarrow> string \<Rightarrow> int" where
  "code_unit_compare a b = (if a < b then - 1 else if a = b then 0 else 1)"

section \<open>Sample rows\<close>

definition alice :: Profile where
  "alice = \<lparr>pid = 1, user_id = 11, name = ''Alice'', email = ''alice@example.org'',
            location = Some ''Berlin'', bio = None, avatar_url = None,
            skills_offered = Some [''React''], skills_wanted = Some [],
            availability = ''weekends'', is_public = True,
            created_at = 100, updated_at = 100\<rparr>"

definition bob :: Profile where
  "bob = \<lparr>pid = 2, user_id = 12, name = ''Bob'', email = ''bob@example.org'',
          location = None, bio = None, avatar_url = None,
          skills_offered = Some [''Cooking''], skills_wanted = Some [],
          availability = ''flexible'', is_public = True,
          created_at = 200, updated_at = 200\<rparr>"

definition carol :: Profile where
  "carol = \<lparr>pid = 3, user_id = 13, name = ''Carol'', email = ''carol@example.org'',
            location = Some ''Lyon'', bio = None, avatar_url = None,
            skills_offered = Some [''Piano'', ''French'', ''Chess''], skills_wanted = None,
            availability = ''evenings'', is_public = False,
            created_at = 300, updated_at = 300\<rparr>"

definition declined_request :: SkillRequest where
  "declined_request = \<lparr>rid = 5, from_user_id = 11, to_user_id = 12, message = ''Hello'',
     skill_offered = ''React'', skill_wanted = ''Cooking'', status = declined,
     req_created_at = 400, req_updated_at = 450\<rparr>"

definition alice_session :: AuthUser where
  "alice_session = \<lparr>auth_id = 11, auth_email = ''alice@example.org''\<rparr>"

definition bob_session :: AuthUser where
  "bob_session = \<lparr>auth_id = 12, auth_email = ''bob@example.org''\<rparr>"

definition carol_session :: AuthUser where
  "carol_session = \<lparr>auth_id = 13, auth_email = ''carol@example.org''\<rparr>"

text \<open>Alice viewing Bob's profile, the request dialog filled in.\<close>

definition sample_page :: ProfilePageState where
  "sample_page = \<lparr>user = Some alice_session, profile = Some bob,
     currentUserProfile = Some alice, requestMessage = '' Swap? '',
     selectedSkillOffered = ''React'', selectedSkillWanted = ''Cooking'',
     isRequestDialogOpen = True, loading = False, sending = False, error = Text [],
     success = [], pushed = None\<rparr>"



definition sample_form :: FormState where
  "sample_form = \<lparr>formData = \<lparr>form_name = ''Dana'', form_location = [], form_bio = [],
       form_skills_offered = [''Go'', ''Rust''], form_skills_wanted = [''Piano''],
       form_availability = ''flexible'', form_is_public = True\<rparr>,
     skillInput = ''  React '', wantedSkillInput = []\<rparr>"

definition sample_db :: db where
  "sample_db = \<lparr>profiles_table = [alice, bob, carol],
                 skill_requests_table = [declined_request]\<rparr>"

section \<open>Properties of the string primitives\<close>

lemma str_includes_sublist: "str_includes s t \<longleftrightarrow> sublist t s"
  by (induction s) (auto simp: sublist_Cons_right)

lemma str_includes_ci: "str_includes (toLowerCase s) (toLowerCase t) \<longleftrightarrow> ci_substring t s"
  by (simp add: str_includes_sublist ci_substring_def sublist_def)

lemma some_skill_includes_iff:
  "some_skill_includes arr t \<longleftrightarrow> (\<exists>s \<in> entries arr. ci_substring t s)"
  by (cases arr) (simp_all add: some_skill_includes_def entries_def list_ex_iff str_includes_ci)

lemma ci_substring_Nil_right: "ci_substring t [] \<longleftrightarrow> t = []"
  by (simp add: ci_substring_def toLowerCase_def)

lemma toLowerCase_eq_iff: "toLowerCase a = toLowerCase b \<longleftrightarrow> ci_equal a b"
  by (auto simp: toLowerCase_def ci_equal_def list_eq_iff_nth_eq)

lemma lower_React: "toLowerCase ''React'' = ''react''" by code_simp
lemma lower_REACT: "toLowerCase ''REACT'' = ''react''" by code_simp
lemma lower_Cooking: "toLowerCase ''Cooking'' = ''cooking''" by code_simp
lemma lower_Bob: "toLowerCase ''Bob'' = ''bob''" by code_simp
lemma lower_Alice: "toLowerCase ''Alice'' = ''alice''" by code_simp
lemma lower_weekends: "toLowerCase ''weekends'' = ''weekends''" by code_simp
lemma lower_WeekEnds: "toLowerCase ''WeekEnds'' = ''weekends''" by code_simp
lemma lower_week: "toLowerCase ''week'' = ''week''" by code_simp
lemma lower_Berlin: "toLowerCase ''Berlin'' = ''berlin''" by code_simp
lemma lower_BER: "toLowerCase ''BER'' = ''ber''" by code_simp

section \<open>Browse: the search predicate\<close>

text \<open>
  C6. The search predicate of \<open>applyFilters\<close> holds exactly when the term is empty, or
  is a case-insensitive substring of the profile's name, of some entry of
  \<open>skills_offered\<close> or of some entry of \<open>skills_wanted\<close>. A term that is \<open>react\<close>
  in any mix of cases matches every profile offering \<open>React\<close>, and does not match Bob,
  who offers only \<open>Cooking\<close>.
\<close>

theorem matchesSearch_spec:
  "(matchesSearch term p \<longleftrightarrow>
      term = [] \<or> ci_substring term (name p) \<or>
      (\<exists>s \<in> entries (skills_offered p). ci_substring term s) \<or>
      (\<exists>s \<in> entries (skills_wanted p). ci_substring term s)) \<and>
   (toLowerCase term = ''react'' \<longrightarrow>
      (skills_offered p = Some skills \<and> ''React'' \<in> set skills \<longrightarrow> matchesSearch term p) \<and>
      (name p = ''Bob'' \<and> skills_offered p = Some [''Cooking''] \<and>
       (skills_wanted p = None \<or> skills_wanted p = Some []) \<longrightarrow> \<not> matchesSearch term p))"
proof (intro conjI impI)
  show "matchesSearch term p \<longleftrightarrow>
      term = [] \<or> ci_substring term (name p) \<or>
      (\<exists>s \<in> entries (skills_offered p). ci_substring term s) \<or>
      (\<exists>s \<in> entries (skills_wanted p). ci_substring term s)"
    unfolding matchesSearch_def some_skill_includes_iff str_includes_ci by blast
next
  assume t: "toLowerCase term = ''react''"
  assume "skills_offered p = Some skills \<and> ''React'' \<in> set skills"
  then have "some_skill_includes (skills_offered p) term"
    by (auto simp: some_skill_includes_def list_ex_iff t lower_React intro!: bexI[of _ "''React''"])
  then show "matchesSearch term p" by (simp add: matchesSearch_def)
next
  assume t: "toLowerCase term = ''react''"
  assume b: "name p = ''Bob'' \<and> skills_offered p = Some [''Cooking''] \<and>
     (skills_wanted p = None \<or> skills_wanted p = Some [])"
  from t have "term \<noteq> []" by (auto simp: toLowerCase_def)
  with b show "\<not> matchesSearch term p"
    by (auto simp: matchesSearch_def some_skill_includes_def t lower_Cooking lower_Bob)
qed

theorem matchesSearch_spec_witness:
  "toLowerCase ''REACT'' = ''react'' \<and> skills_offered alice = Some [''React''] \<and>
   matchesSearch ''REACT'' alice \<and>
   name bob = ''Bob'' \<and> skills_offered bob = Some [''Cooking''] \<and> skills_wanted bob = Some [] \<and>
   \<not> matchesSearch ''REACT'' bob"
proof -
  have "matchesSearch ''REACT'' alice"
    using matchesSearch_spec [of "''REACT''" alice "[''React'']", THEN conjunct2]
    by (simp add: lower_REACT alice_def)
  moreover have "\<not> matchesSearch ''REACT'' bob"
    using matchesSearch_spec [of "''REACT''" bob "[]", THEN conjunct2]
    by (simp add: lower_REACT bob_def)
  ultimately show ?thesis by (simp add: lower_REACT alice_def bob_def)
qed

section \<open>Browse: the location predicate\<close>

text \<open>
  C8. The location predicate holds exactly when the filter is empty, or the profile has a
  location and the filter is a case-insensitive substring of it. A profile without a
  location matches no non-empty filter.
\<close>

theorem matchesLocation_spec:
  "(matchesLocation locationFilter p \<longleftrightarrow>
      locationFilter = [] \<or> (\<exists>l. location p = Some l \<and> ci_substring locationFilter l)) \<and>
   (location p = None \<and> locationFilter \<noteq> [] \<longrightarrow> \<not> matchesLocation locationFilter p)"
proof (cases "location p")
  case None
  then show ?thesis by (simp add: matchesLocation_def)
next
  case (Some l)
  show ?thesis
  proof (cases "l = []")
    case True
    with Some show ?thesis
      by (simp add: matchesLocation_def ci_substring_Nil_right)
  next
    case False
    with Some show ?thesis
      by (simp add: matchesLocation_def str_includes_ci)
  qed
qed

theorem matchesLocation_spec_witness:
  "location bob = None \<and> ''Paris'' \<noteq> [] \<and> \<not> matchesLocation ''Paris'' bob \<and>
   location alice = Some ''Berlin'' \<and> ci_substring ''BER'' ''Berlin'' \<and>
   matchesLocation ''BER'' alice"
proof -
  have sub: "ci_substring ''BER'' ''Berlin''"
    unfolding ci_substring_def lower_BER lower_Berlin
    by (intro exI [of _ "[]"] exI [of _ "''lin''"]) simp
  have "\<not> matchesLocation ''Paris'' bob"
    using matchesLocation_spec [of "''Paris''" bob] by (simp add: bob_def)
  moreover have "matchesLocation ''BER'' alice"
    using matchesLocation_spec [of "''BER''" alice] sub by (simp add: alice_def)
  ultimately show ?thesis using sub by (simp add: alice_def bob_def)
qed

section \<open>Browse: the availability predicate\<close>

text \<open>
  C9. The availability predicate holds exactly when the filter is the sentinel \<open>all\<close>,
  which every profile matches, or the profile's availability equals the filter under
  case-insensitive comparison. The match is on the whole string: a matching filter other
  than the sentinel has the length of the availability, so \<open>week\<close> does not match
  \<open>weekends\<close>.
\<close>

theorem matchesAvailability_spec:
  "(matchesAvailability availabilityFilter p \<longleftrightarrow>
      availabilityFilter = ''all'' \<or> ci_equal (availability p) availabilityFilter) \<and>
   matchesAvailability ''all'' p \<and>
   (availabilityFilter \<noteq> ''all'' \<and> matchesAvailability availabilityFilter p \<longrightarrow>
      length (availability p) = length availabilityFilter) \<and>
   (availability p = ''weekends'' \<longrightarrow> \<not> matchesAvailability ''week'' p)"
  by (auto simp: matchesAvailability_def toLowerCase_eq_iff ci_equal_def lower_weekends lower_week)

theorem matchesAvailability_spec_witness:
  "availability alice = ''weekends'' \<and> ''WeekEnds'' \<noteq> ''all'' \<and>
   matchesAvailability ''WeekEnds'' alice \<and>
   length (availability alice) = length ''WeekEnds'' \<and>
   \<not> matchesAvailability ''week'' alice"
proof -
  have m: "matchesAvailability ''WeekEnds'' alice"
    by (simp add: matchesAvailability_def alice_def lower_weekends lower_WeekEnds)
  show ?thesis
    using matchesAvailability_spec [of "''WeekEnds''" alice] m by (simp add: alice_def)
qed

section \<open>Browse: sorting after filtering\<close>

lemma mset_insert_sorted: "mset (insert_sorted cmp x ys) = add_mset x (mset ys)"
  by (induction ys) simp_all

lemma mset_array_sort: "mset (array_sort cmp xs) = mset xs"
  unfolding array_sort_def by (induction xs) (simp_all add: mset_insert_sorted)

lemma set_insert_sorted: "set (insert_sorted cmp x ys) = insert x (set ys)"
  by (induction ys) auto

lemma sorted_wrt_insert_sorted:
  assumes total: "\<And>a b. cmp a b \<le> 0 \<or> cmp b a \<le> 0"
    and trans: "\<And>a b c. cmp a b \<le> 0 \<Longrightarrow> cmp b c \<le> 0 \<Longrightarrow> cmp a c \<le> 0"
    and sorted: "sorted_wrt (\<lambda>a b. cmp a b \<le> 0) ys"
  shows "sorted_wrt (\<lambda>a b. cmp a b \<le> 0) (insert_sorted cmp x ys)"
  using sorted
proof (induction ys)
  case Nil
  show ?case by simp
next
  case (Cons y ys)
  show ?case
  proof (cases "cmp x y \<le> 0")
    case True
    have "cmp x z \<le> 0" if "z \<in> set ys" for z
      using Cons.prems that True trans by auto
    with True Cons.prems show ?thesis by simp
  next
    case False
    then have "cmp y x \<le> 0" using total[of x y] by simp
    with False Cons show ?thesis by (simp add: set_insert_sorted)
  qed
qed

lemma sorted_wrt_array_sort:
  assumes "\<And>a b. cmp a b \<le> 0 \<or> cmp b a \<le> 0"
    and "\<And>a b c. cmp a b \<le> 0 \<Longrightarrow> cmp b c \<le> 0 \<Longrightarrow> cmp a c \<le> 0"
  shows "sorted_wrt (\<lambda>a b. cmp a b \<le> 0) (array_sort cmp xs)"
  unfolding array_sort_def
  by (induction xs) (simp_all add: sorted_wrt_insert_sorted assms)

lemma sorted_wrt_array_sort_key:
  fixes key :: "'a \<Rightarrow> int"
  assumes "\<And>a b. cmp a b \<le> 0 \<longleftrightarrow> key a \<le> key b"
  shows "sorted_wrt (\<lambda>a b. key a \<le> key b) (array_sort cmp xs)"
proof -
  have "sorted_wrt (\<lambda>a b. cmp a b \<le> 0) (array_sort cmp xs)"
    by (rule sorted_wrt_array_sort) (auto simp: assms)
  then show ?thesis by (simp add: assms)
qed

lemma sorted_newest:
  "sorted_wrt (\<lambda>a b. created_at b \<le> created_at a) (array_sort (compareProfiles lc ''newest'') xs)"
  using sorted_wrt_array_sort_key[of "compareProfiles lc ''newest''" "\<lambda>p. - created_at p" xs]
  by (simp add: compareProfiles_def)

lemma sorted_oldest:
  "sorted_wrt (\<lambda>a b. created_at a \<le> created_at b) (array_sort (compareProfiles lc ''oldest'') xs)"
  using sorted_wrt_array_sort_key[of "compareProfiles lc ''oldest''" "\<lambda>p. created_at p" xs]
  by (simp add: compareProfiles_def)

lemma sorted_skills:
  "sorted_wrt (\<lambda>a b. skills_count b \<le> skills_count a) (array_sort (compareProfiles lc ''skills'') xs)"
  using sorted_wrt_array_sort_key[of "compareProfiles lc ''skills''" "\<lambda>p. - skills_count p" xs]
  by (simp add: compareProfiles_def)

lemma sorted_name:
  assumes "consistent_comparator lc"
  shows "sorted_wrt (\<lambda>a b. lc (name a) (name b) \<le> 0) (array_sort (compareProfiles lc ''name'') xs)"
proof -
  have c: "compareProfiles lc ''name'' = (\<lambda>a b. lc (name a) (name b))"
    by (simp add: compareProfiles_def fun_eq_iff)
  have "sorted_wrt (\<lambda>a b. compareProfiles lc ''name'' a b \<le> 0) (array_sort (compareProfiles lc ''name'') xs)"
  proof (rule sorted_wrt_array_sort)
    show "compareProfiles lc ''name'' a b \<le> 0 \<or> compareProfiles lc ''name'' b a \<le> 0" for a b
      using assms unfolding c consistent_comparator_def by blast
    show "compareProfiles lc ''name'' a b \<le> 0 \<Longrightarrow> compareProfiles lc ''name'' b c \<le> 0
        \<Longrightarrow> compareProfiles lc ''name'' a c \<le> 0" for a b c
      using assms unfolding c consistent_comparator_def by blast
  qed
  then show ?thesis by (simp add: c)
qed

lemma browse_fetch_mset:
  "mset (browse_fetchProfiles uid rows) = mset (filter (\<lambda>p. is_public p) rows)"
proof -
  have "(\<lambda>p. profiles_select_policy uid p \<and> is_public p = True) = (\<lambda>p. is_public p)"
    by (auto simp: profiles_select_policy_def)
  then show ?thesis by (simp add: browse_fetchProfiles_def mset_array_sort)
qed

lemma consistent_code_unit_compare: "consistent_comparator code_unit_compare"
  unfolding consistent_comparator_def code_unit_compare_def
  by (auto split: if_splits)

text \<open>
  C7. \<open>applyFilters\<close> shows exactly the profiles that pass the search, location and
  availability predicates together, rearranged by the sort: by \<open>created_at\<close> descending
  for \<open>newest\<close>, ascending for \<open>oldest\<close>, by name ascending in the order of
  \<open>localeCompare\<close> for \<open>name\<close> (for a consistent collation), and by the number of
  offered skills descending for \<open>skills\<close>, so a profile with three skills comes before one
  with a single skill. With the \<open>is_public\<close> condition of the fetch, four predicates
  select the rows of the browse page before the sort orders them.
\<close>

theorem applyFilters_sorted_after_filter:
  "(let matches = (\<lambda>p. matchesSearch searchTerm p \<and> matchesLocation locationFilter p \<and>
                        matchesAvailability availabilityFilter p);
        shown = applyFilters localeCompare profiles searchTerm locationFilter availabilityFilter sortBy
    in shown = array_sort (compareProfiles localeCompare sortBy) (filter matches profiles) \<and>
       mset shown = mset (filter matches profiles) \<and>
       (sortBy = ''newest'' \<longrightarrow> sorted_wrt (\<lambda>a b. created_at b \<le> created_at a) shown) \<and>
       (sortBy = ''oldest'' \<longrightarrow> sorted_wrt (\<lambda>a b. created_at a \<le> created_at b) shown) \<and>
       (sortBy = ''name'' \<and> consistent_comparator localeCompare \<longrightarrow>
          sorted_wrt (\<lambda>a b. localeCompare (name a) (name b) \<le> 0) shown) \<and>
       (sortBy = ''skills'' \<longrightarrow> sorted_wrt (\<lambda>a b. skills_count b \<le> skills_count a) shown) \<and>
       (skills_count a = 3 \<and> skills_count b = 1 \<and> matches a \<and> matches b \<longrightarrow>
          applyFilters localeCompare [b, a] searchTerm locationFilter availabilityFilter ''skills''
            = [a, b]) \<and>
       mset (browse_page localeCompare uid rows searchTerm locationFilter availabilityFilter sortBy)
         = mset (filter (\<lambda>p. is_public p \<and> matches p) rows))"
  unfolding Let_def
proof (intro conjI impI)
  show "applyFilters localeCompare profiles searchTerm locationFilter availabilityFilter sortBy =
    array_sort (compareProfiles localeCompare sortBy)
      (filter (\<lambda>p. matchesSearch searchTerm p \<and> matchesLocation locationFilter p \<and>
                        matchesAvailability availabilityFilter p) profiles)"
    by (simp add: applyFilters_def)
  show "mset (applyFilters localeCompare profiles searchTerm locationFilter availabilityFilter sortBy) =
    mset (filter (\<lambda>p. matchesSearch searchTerm p \<and> matchesLocation locationFilter p \<and>
                        matchesAvailability availabilityFilter p) profiles)"
    by (simp add: applyFilters_def mset_array_sort)
  show "sorted_wrt (\<lambda>a b. created_at b \<le> created_at a)
     (applyFilters localeCompare profiles searchTerm locationFilter availabilityFilter sortBy)"
    if "sortBy = ''newest''"
    using that by (simp add: applyFilters_def sorted_newest)
  show "sorted_wrt (\<lambda>a b. created_at a \<le> created_at b)
     (applyFilters localeCompare profiles searchTerm locationFilter availabilityFilter sortBy)"
    if "sortBy = ''oldest''"
    using that by (simp add: applyFilters_def sorted_oldest)
  show "sorted_wrt (\<lambda>a b. localeCompare (name a) (name b) \<le> 0)
     (applyFilters localeCompare profiles searchTerm locationFilter availabilityFilter sortBy)"
    if "sortBy = ''name'' \<and> consistent_comparator localeCompare"
    using that by (simp add: applyFilters_def sorted_name)
  show "sorted_wrt (\<lambda>a b. skills_count b \<le> skills_count a)
     (applyFilters localeCompare profiles searchTerm locationFilter availabilityFilter sortBy)"
    if "sortBy = ''skills''"
    using that by (simp add: applyFilters_def sorted_skills)
  show "applyFilters localeCompare [b, a] searchTerm locationFilter availabilityFilter ''skills''
            = [a, b]"
    if "skills_count a = 3 \<and> skills_count b = 1 \<and>
        (matchesSearch searchTerm a \<and> matchesLocation locationFilter a \<and>
          matchesAvailability availabilityFilter a) \<and>
        (matchesSearch searchTerm b \<and> matchesLocation locationFilter b \<and>
          matchesAvailability availabilityFilter b)"
    using that by (simp add: applyFilters_def array_sort_def compareProfiles_def)
  show "mset (browse_page localeCompare uid rows searchTerm locationFilter availabilityFilter sortBy)
         = mset (filter (\<lambda>p. is_public p \<and> (matchesSearch searchTerm p \<and>
              matchesLocation locationFilter p \<and> matchesAvailability availabilityFilter p)) rows)"
    by (simp add: browse_page_def applyFilters_def mset_array_sort browse_fetch_mset
        filter_filter_mset)
qed

lemma matches_all_alice:
  "matchesSearch [] alice \<and> matchesLocation [] alice \<and> matchesAvailability ''all'' alice"
  by (simp add: matchesSearch_def matchesLocation_def matchesAvailability_def)

lemma matches_all_carol:
  "matchesSearch [] carol \<and> matchesLocation [] carol \<and> matchesAvailability ''all'' carol"
  by (simp add: matchesSearch_def matchesLocation_def matchesAvailability_def)

lemma skills_count_alice: "skills_count alice = 1"
  by (simp add: skills_count_def alice_def)

lemma skills_count_carol: "skills_count carol = 3"
  by (simp add: skills_count_def carol_def)

theorem applyFilters_sorted_after_filter_witness:
  "sorted_wrt (\<lambda>a b. code_unit_compare (name a) (name b) \<le> 0)
     (applyFilters code_unit_compare [carol, bob, alice] [] [] ''all'' ''name'') \<and>
   sorted_wrt (\<lambda>a b. created_at b \<le> created_at a)
     (applyFilters code_unit_compare [alice, carol, bob] [] [] ''all'' ''newest'') \<and>
   sorted_wrt (\<lambda>a b. created_at a \<le> created_at b)
     (applyFilters code_unit_compare [carol, bob, alice] [] [] ''all'' ''oldest'') \<and>
   sorted_wrt (\<lambda>a b. skills_count b \<le> skills_count a)
     (applyFilters code_unit_compare [alice, carol, bob] [] [] ''all'' ''skills'') \<and>
   skills_count carol = 3 \<and> skills_count alice = 1 \<and>
   applyFilters code_unit_compare [alice, carol] [] [] ''all'' ''skills'' = [carol, alice]"
proof -
  have c: "consistent_comparator code_unit_compare"
    by (rule consistent_code_unit_compare)
  have by_name: "sorted_wrt (\<lambda>a b. code_unit_compare (name a) (name b) \<le> 0)
     (applyFilters code_unit_compare [carol, bob, alice] [] [] ''all'' ''name'')"
    using c applyFilters_sorted_after_filter
        [where localeCompare = code_unit_compare and profiles = "[carol, bob, alice]" and searchTerm = "[]"
           and locationFilter = "[]" and availabilityFilter = "''all''" and sortBy = "''name''"
           and a = carol and b = alice and uid = None and rows = "[]", unfolded Let_def]
    by blast
  have newest: "sorted_wrt (\<lambda>a b. created_at b \<le> created_at a)
     (applyFilters code_unit_compare [alice, carol, bob] [] [] ''all'' ''newest'')"
    using applyFilters_sorted_after_filter
        [where localeCompare = code_unit_compare and profiles = "[alice, carol, bob]" and searchTerm = "[]"
           and locationFilter = "[]" and availabilityFilter = "''all''" and sortBy = "''newest''"
           and a = carol and b = alice and uid = None and rows = "[]", unfolded Let_def]
    by blast
  have oldest: "sorted_wrt (\<lambda>a b. created_at a \<le> created_at b)
     (applyFilters code_unit_compare [carol, bob, alice] [] [] ''all'' ''oldest'')"
    using applyFilters_sorted_after_filter
        [where localeCompare = code_unit_compare and profiles = "[carol, bob, alice]" and searchTerm = "[]"
           and locationFilter = "[]" and availabilityFilter = "''all''" and sortBy = "''oldest''"
           and a = carol and b = alice and uid = None and rows = "[]", unfolded Let_def]
    by blast
  have by_skills: "sorted_wrt (\<lambda>a b. skills_count b \<le> skills_count a)
     (applyFilters code_unit_compare [alice, carol, bob] [] [] ''all'' ''skills'')"
    using applyFilters_sorted_after_filter
        [where localeCompare = code_unit_compare and profiles = "[alice, carol, bob]" and searchTerm = "[]"
           and locationFilter = "[]" and availabilityFilter = "''all''" and sortBy = "''skills''"
           and a = carol and b = alice and uid = None and rows = "[]", unfolded Let_def]
    by blast
  have three_first:
    "applyFilters code_unit_compare [alice, carol] [] [] ''all'' ''skills'' = [carol, alice]"
    using matches_all_alice matches_all_carol skills_count_alice skills_count_carol
      applyFilters_sorted_after_filter
        [where localeCompare = code_unit_compare and profiles = "[alice, carol, bob]" and searchTerm = "[]"
           and locationFilter = "[]" and availabilityFilter = "''all''" and sortBy = "''skills''"
           and a = carol and b = alice and uid = None and rows = "[]", unfolded Let_def]
    by blast
  show ?thesis
    using by_name newest oldest by_skills three_first skills_count_alice skills_count_carol
    by blast
qed

section \<open>Skill lists of the profile form\<close>

lemma set_dropWhile_all: "(\<forall>x \<in> set (dropWhile P xs). P x) \<longleftrightarrow> (\<forall>x \<in> set xs. P x)"
  by (induction xs) auto

lemma trim_Nil_iff: "trim s = [] \<longleftrightarrow> (\<forall>c \<in> set s. is_whitespace c)"
  by (simp add: trim_def dropWhile_eq_Nil_conv set_dropWhile_all)

lemma skills_field_addSkill:
  "skills_field type (addSkill skill type st) =
     (if trim skill = [] \<or> trim skill \<in> set (skills_field type st) then skills_field type st
      else skills_field type st @ [trim skill])"
  by (cases type) (simp_all add: addSkill_def skills_field_def array_includes_def Let_def)

lemma skills_field_addSkill_other:
  "type' \<noteq> type \<Longrightarrow> skills_field type' (addSkill skill type st) = skills_field type' st"
  by (cases type; cases type')
    (simp_all add: addSkill_def skills_field_def array_includes_def Let_def)

lemma addSkill_twice: "addSkill skill type (addSkill skill type st) = addSkill skill type st"
  by (cases type) (simp_all add: addSkill_def array_includes_def Let_def)

lemma trim_React: "trim ''  React '' = ''React''" by code_simp

text \<open>
  C10. \<open>addSkill\<close> works on the trimmed label. A blank or whitespace-only input changes
  nothing; a label already in the list leaves the list as it is; any other label is
  appended at the end, after the existing entries in their order. The other skill list is
  never touched. Adding the same input again, or another input with the same trimmed
  label, changes the list no further.
\<close>

theorem addSkill_spec:
  "((\<forall>c \<in> set skill. is_whitespace c) \<longrightarrow> addSkill skill type st = st) \<and>
   (trim skill \<in> set (skills_field type st) \<longrightarrow>
      skills_field type (addSkill skill type st) = skills_field type st) \<and>
   (trim skill \<noteq> [] \<and> trim skill \<notin> set (skills_field type st) \<longrightarrow>
      skills_field type (addSkill skill type st) = skills_field type st @ [trim skill]) \<and>
   (type' \<noteq> type \<longrightarrow> skills_field type' (addSkill skill type st) = skills_field type' st) \<and>
   addSkill skill type (addSkill skill type st) = addSkill skill type st \<and>
   (trim skill' = trim skill \<longrightarrow>
      skills_field type (addSkill skill' type (addSkill skill type st))
        = skills_field type (addSkill skill type st))"
proof (intro conjI impI)
  assume "\<forall>c \<in> set skill. is_whitespace c"
  then have "trim skill = []" by (simp add: trim_Nil_iff)
  then show "addSkill skill type st = st" by (simp add: addSkill_def)
next
  assume "trim skill \<in> set (skills_field type st)"
  then show "skills_field type (addSkill skill type st) = skills_field type st"
    by (simp add: skills_field_addSkill)
next
  assume "trim skill \<noteq> [] \<and> trim skill \<notin> set (skills_field type st)"
  then show "skills_field type (addSkill skill type st) = skills_field type st @ [trim skill]"
    by (simp add: skills_field_addSkill)
next
  assume "type' \<noteq> type"
  then show "skills_field type' (addSkill skill type st) = skills_field type' st"
    by (rule skills_field_addSkill_other)
next
  show "addSkill skill type (addSkill skill type st) = addSkill skill type st"
    by (rule addSkill_twice)
next
  assume "trim skill' = trim skill"
  then show "skills_field type (addSkill skill' type (addSkill skill type st))
        = skills_field type (addSkill skill type st)"
    by (simp add: skills_field_addSkill)
qed

theorem addSkill_spec_witness:
  "addSkill ''   '' offered sample_form = sample_form \<and>
   trim '' Go'' \<in> set (skills_field offered sample_form) \<and>
   skills_field offered (addSkill '' Go'' offered sample_form) = [''Go'', ''Rust''] \<and>
   trim ''  React '' \<noteq> [] \<and> trim ''  React '' \<notin> set (skills_field offered sample_form) \<and>
   skills_field offered (addSkill ''  React '' offered sample_form) = [''Go'', ''Rust'', ''React''] \<and>
   wanted \<noteq> offered \<and>
   skills_field wanted (addSkill ''  React '' offered sample_form) = [''Piano''] \<and>
   trim ''React'' = trim ''  React '' \<and>
   skills_field offered (addSkill ''React'' offered (addSkill ''  React '' offered sample_form))
     = [''Go'', ''Rust'', ''React'']"
proof -
  have f: "skills_field offered sample_form = [''Go'', ''Rust'']"
    "skills_field wanted sample_form = [''Piano'']"
    by (simp_all add: skills_field_def sample_form_def)
  have ws: "\<forall>c \<in> set ''   ''. is_whitespace c" by (simp add: is_whitespace_def)
  have t: "trim '' Go'' = ''Go''" "trim ''  React '' = ''React''" "trim ''React'' = ''React''"
    by code_simp+
  note T = addSkill_spec [where type = offered and st = sample_form]
  have 1: "addSkill ''   '' offered sample_form = sample_form"
    using T [of "''   ''"] ws by blast
  have 2: "skills_field offered (addSkill '' Go'' offered sample_form) = [''Go'', ''Rust'']"
    using T [of "'' Go''"] by (simp add: f t)
  have 3: "skills_field offered (addSkill ''  React '' offered sample_form)
            = [''Go'', ''Rust'', ''React'']"
    using T [of "''  React ''"] by (simp add: f t)
  have 4: "skills_field wanted (addSkill ''  React '' offered sample_form) = [''Piano'']"
    using T [of "''  React ''" wanted] by (simp add: f)
  have 5: "skills_field offered
             (addSkill ''React'' offered (addSkill ''  React '' offered sample_form))
           = [''Go'', ''Rust'', ''React'']"
    using T [of "''  React ''" _ "''React''"] 3 by (simp add: t)
  show ?thesis using 1 2 3 4 5 by (simp add: f t)
qed

section \<open>Request lifecycle\<close>

lemma length_update_status [simp]:
  "length (skill_requests_update_status uid requestId action now rows) = length rows"
  by (simp add: skill_requests_update_status_def)

lemma nth_update_status:
  "i < length rows \<Longrightarrow>
   skill_requests_update_status uid requestId action now rows ! i =
     (if rid (rows ! i) = requestId \<and> uid = Some (to_user_id (rows ! i))
      then (rows ! i)\<lparr>status := action, req_updated_at := now\<rparr> else rows ! i)"
  by (auto simp: skill_requests_update_status_def requests_select_policy_def
      requests_update_policy_def)

text \<open>
  C1. \<open>handleRequestAction\<close> called by the receiver of a request reports no error, and
  the row with the given id gets the new decision as its status whatever its status
  was before; no other column but \<open>updated_at\<close> changes, and no row appears or goes.
\<close>

theorem handleRequestAction_overwrites:
  "snd (handleRequestAction (Some u) requestId action now d) = None \<and>
   length (skill_requests_table (fst (handleRequestAction (Some u) requestId action now d)))
     = length (skill_requests_table d) \<and>
   (\<forall>i < length (skill_requests_table d).
      rid (skill_requests_table d ! i) = requestId \<and>
      to_user_id (skill_requests_table d ! i) = auth_id u \<longrightarrow>
        skill_requests_table (fst (handleRequestAction (Some u) requestId action now d)) ! i
          = (skill_requests_table d ! i)\<lparr>status := action, req_updated_at := now\<rparr>)"
  by (simp add: handleRequestAction_def nth_update_status)

theorem handleRequestAction_overwrites_witness:
  "status (skill_requests_table sample_db ! 0) = declined \<and>
   rid (skill_requests_table sample_db ! 0) = 5 \<and>
   to_user_id (skill_requests_table sample_db ! 0) = auth_id bob_session \<and>
   snd (handleRequestAction (Some bob_session) 5 accepted 500 sample_db) = None \<and>
   status (skill_requests_table
     (fst (handleRequestAction (Some bob_session) 5 accepted 500 sample_db)) ! 0) = accepted"
  using handleRequestAction_overwrites [of bob_session 5 accepted 500 sample_db]
  by (simp add: sample_db_def declined_request_def bob_session_def)

text \<open>
  C4. A request that \<open>handleSendRequest\<close> adds to the table has status \<open>pending\<close> and
  the caller as its sender, and the rows already there stay as they are. When the caller
  of \<open>handleRequestAction\<close> is not the principal in \<open>to_user_id\<close> of a row, signed in
  or not, the row is left as it was, status included.
\<close>

theorem status_pending_then_receiver_only:
  "(skill_requests_table (fst (handleSendRequest new_id now d st)) = skill_requests_table d \<or>
    (\<exists>r. skill_requests_table (fst (handleSendRequest new_id now d st))
            = skill_requests_table d @ [r] \<and>
         status r = pending \<and> Some (from_user_id r) = map_option auth_id (user st))) \<and>
   (\<forall>i < length (skill_requests_table d).
      map_option auth_id caller \<noteq> Some (to_user_id (skill_requests_table d ! i)) \<longrightarrow>
        skill_requests_table (fst (handleRequestAction caller requestId action now d)) ! i
          = skill_requests_table d ! i)"
proof (intro conjI allI impI)
  show "skill_requests_table (fst (handleSendRequest new_id now d st)) = skill_requests_table d \<or>
    (\<exists>r. skill_requests_table (fst (handleSendRequest new_id now d st))
            = skill_requests_table d @ [r] \<and>
         status r = pending \<and> Some (from_user_id r) = map_option auth_id (user st))"
    by (auto simp: handleSendRequest_def skill_requests_insert_def
        split: option.splits sum.splits if_splits)
next
  fix i
  assume "i < length (skill_requests_table d)"
    and "map_option auth_id caller \<noteq> Some (to_user_id (skill_requests_table d ! i))"
  then show "skill_requests_table (fst (handleRequestAction caller requestId action now d)) ! i
          = skill_requests_table d ! i"
    by (cases caller) (simp_all add: handleRequestAction_def nth_update_status)
qed

theorem status_pending_then_receiver_only_witness:
  "skill_requests_table (fst (handleSendRequest 6 600 sample_db sample_page))
     = skill_requests_table sample_db @
         [\<lparr>rid = 6, from_user_id = 11, to_user_id = 12, message = ''Swap?'',
           skill_offered = ''React'', skill_wanted = ''Cooking'', status = pending,
           req_created_at = 600, req_updated_at = 600\<rparr>] \<and>
   (0::nat) < length (skill_requests_table sample_db) \<and>
   map_option auth_id (Some alice_session) \<noteq> Some (to_user_id (skill_requests_table sample_db ! 0)) \<and>
   status (skill_requests_table
     (fst (handleRequestAction (Some alice_session) 5 accepted 500 sample_db)) ! 0) = declined"
proof -
  have sent: "skill_requests_table (fst (handleSendRequest 6 600 sample_db sample_page))
     = skill_requests_table sample_db @
         [\<lparr>rid = 6, from_user_id = 11, to_user_id = 12, message = ''Swap?'',
           skill_offered = ''React'', skill_wanted = ''Cooking'', status = pending,
           req_created_at = 600, req_updated_at = 600\<rparr>]"
    by code_simp
  have "skill_requests_table
     (fst (handleRequestAction (Some alice_session) 5 accepted 500 sample_db)) ! 0
      = skill_requests_table sample_db ! 0"
    using status_pending_then_receiver_only
      [where d = sample_db and caller = "Some alice_session" and requestId = 5
         and action = accepted and now = 500, THEN conjunct2]
    by (simp add: sample_db_def declined_request_def alice_session_def)
  then show ?thesis using sent
    by (simp add: sample_db_def declined_request_def alice_session_def)
qed




section \<open>Profile directory\<close>

lemma single_Inr_iff: "single xs = Inr x \<longleftrightarrow> xs = [x]"
  by (auto simp: single_def split: list.splits)

lemma single_Inl: "single xs = Inl e \<Longrightarrow> e = PGRST116"
  by (auto simp: single_def split: list.splits)

lemma filter_key_singleton:
  "distinct (map f xs) \<Longrightarrow> x \<in> set xs \<Longrightarrow> filter (\<lambda>p. f p = f x) xs = [x]"
proof (induction xs)
  case Nil
  then show ?case by simp
next
  case (Cons y ys)
  show ?case
  proof (cases "y = x")
    case True
    with Cons.prems have "\<forall>p \<in> set ys. f p \<noteq> f x" by (auto simp: image_iff)
    then have "filter (\<lambda>p. f p = f x) ys = []" by (simp add: filter_empty_conv)
    with True show ?thesis by simp
  next
    case False
    with Cons.prems have "x \<in> set ys" "f y \<noteq> f x" by auto
    with Cons show ?thesis by simp
  qed
qed

lemma filter_key_length_le_1:
  "distinct (map f xs) \<Longrightarrow> length (filter (\<lambda>p. f p = k) xs) \<le> 1"
proof (cases "\<exists>x \<in> set xs. f x = k")
  case True
  then obtain x where "x \<in> set xs" "f x = k" by blast
  moreover assume "distinct (map f xs)"
  ultimately show ?thesis using filter_key_singleton [of f xs x] by simp
next
  case False
  then have "filter (\<lambda>p. f p = k) xs = []" by (simp add: filter_empty_conv)
  then show ?thesis by simp
qed

lemma select_profile_by_user_own:
  assumes "distinct (map user_id rows)" "p \<in> set rows" "user_id p = uid"
  shows "select_profile_by_user uid rows = Inr p"
proof -
  have "(\<lambda>q. profiles_select_policy (Some uid) q \<and> user_id q = uid) = (\<lambda>q. user_id q = user_id p)"
    using assms(3) by (auto simp: profiles_select_policy_def)
  then show ?thesis
    using filter_key_singleton [OF assms(1,2)]
    by (simp add: select_profile_by_user_def single_def)
qed

lemma split_row_by_key:
  assumes "distinct (map f rows)" "old \<in> set rows"
  shows "\<exists>xs ys. rows = xs @ old # ys \<and> (\<forall>p \<in> set xs \<union> set ys. f p \<noteq> f old)"
proof -
  from assms(2) obtain xs ys where r: "rows = xs @ old # ys" by (auto dest: split_list)
  with assms(1) have "\<forall>p \<in> set xs \<union> set ys. f p \<noteq> f old" by (auto simp: image_iff)
  with r show ?thesis by blast
qed

lemma profiles_upsert_invariant:
  assumes u: "distinct (map user_id rows)" and k: "distinct (map pid rows)"
    and ok: "profiles_upsert uid row rows = Inr rows'"
  shows "distinct (map user_id rows') \<and> distinct (map pid rows') \<and>
         ((\<exists>p \<in> set rows. user_id p = user_id row) \<longrightarrow> length rows' = length rows)"
proof (cases "find (\<lambda>p. pid p = pid row) rows")
  case None
  then have "pid row \<notin> set (map pid rows)"
    by (auto simp: find_None_iff)
  with None ok u k show ?thesis
    by (auto simp: profiles_upsert_def image_iff split: if_splits)
next
  case (Some old)
  then have old: "old \<in> set rows" "pid old = pid row"
    by (auto simp: find_Some_iff)
  from split_row_by_key [OF k old(1)] obtain xs ys where
    r: "rows = xs @ old # ys" and other: "\<forall>p \<in> set xs \<union> set ys. pid p \<noteq> pid row"
    using old(2) by auto
  define new where "new = old\<lparr>user_id := user_id row, name := name row, email := email row,
                        location := location row, bio := bio row,
                        skills_offered := skills_offered row,
                        skills_wanted := skills_wanted row,
                        availability := availability row, is_public := is_public row,
                        updated_at := updated_at row\<rparr>"
  have pn: "pid new = pid row" "user_id new = user_id row"
    by (simp_all add: new_def old(2))
  have m: "map (\<lambda>p. if pid p = pid row then new else p) rows = xs @ new # ys"
    using other by (simp add: r old(2) map_idI)
  have f: "filter (\<lambda>p. pid p \<noteq> pid row) rows = xs @ ys"
    using other by (simp add: r old(2) filter_id_conv)
  have eq: "profiles_upsert uid row rows =
      (if \<not> profiles_insert_policy uid row then Inl rls_violation
       else if \<not> profiles_update_policy uid old \<or> \<not> profiles_update_policy uid new
       then Inl rls_violation
       else if user_id row \<in> set (map user_id (xs @ ys)) then Inl unique_violation
       else Inr (xs @ new # ys))"
    unfolding m [symmetric] f [symmetric] pn(2) [symmetric]
    by (simp add: profiles_upsert_def Some new_def Let_def)
  from ok have res: "rows' = xs @ new # ys"
    and fresh: "user_id row \<notin> set (map user_id (xs @ ys))"
    unfolding eq by (auto split: if_splits)
  from u have "distinct (map user_id (xs @ ys))" by (simp add: r)
  with fresh have "distinct (map user_id rows')" by (auto simp: res pn)
  moreover from k have "distinct (map pid rows')" by (simp add: res r pn old(2))
  moreover have "length rows' = length rows" by (simp add: res r)
  ultimately show ?thesis by simp
qed

text \<open>
  C2. While the \<open>profiles\<close> table holds at most one row per \<open>user_id\<close> (and per
  \<open>id\<close>), it still does after \<open>handleSubmit\<close>, whatever the outcome. When the
  signed-in principal already has a profile, \<open>checkExistingProfile\<close> redirects to the
  dashboard, and a submitted form adds no row: the number of rows stays, and with a newly
  generated \<open>id\<close> the data store answers with the unique violation and is unchanged.
\<close>

theorem one_profile_per_principal:
  "distinct (map user_id (profiles_table d)) \<and> distinct (map pid (profiles_table d)) \<longrightarrow>
   distinct (map user_id (profiles_table (fst (handleSubmit caller fd new_id now d)))) \<and>
   distinct (map pid (profiles_table (fst (handleSubmit caller fd new_id now d)))) \<and>
   length (filter (\<lambda>p. user_id p = P)
     (profiles_table (fst (handleSubmit caller fd new_id now d)))) \<le> 1 \<and>
   (caller = Some u \<and> (\<exists>p \<in> set (profiles_table d). user_id p = auth_id u) \<longrightarrow>
      checkExistingProfile u d = redirect_dashboard \<and>
      length (profiles_table (fst (handleSubmit caller fd new_id now d)))
        = length (profiles_table d) \<and>
      (new_id \<notin> set (map pid (profiles_table d)) \<longrightarrow>
         handleSubmit caller fd new_id now d = (d, submit_error unique_violation)))"
proof
  assume inv: "distinct (map user_id (profiles_table d)) \<and> distinct (map pid (profiles_table d))"
  define d' where "d' = fst (handleSubmit caller fd new_id now d)"
  define row where "row = \<lparr>pid = new_id, user_id = auth_id (the caller), name = form_name fd,
                   email = auth_email (the caller), location = or_null (form_location fd),
                   bio = or_null (form_bio fd), avatar_url = None,
                   skills_offered = Some (form_skills_offered fd),
                   skills_wanted = Some (form_skills_wanted fd),
                   availability = form_availability fd, is_public = form_is_public fd,
                   created_at = now, updated_at = now\<rparr>"
  have row: "pid row = new_id" "user_id row = auth_id (the caller)"
    by (simp_all add: row_def)
  have hs: "handleSubmit caller fd new_id now d =
      (case caller of None \<Rightarrow> (d, not_signed_in)
       | Some v \<Rightarrow> (case profiles_upsert (Some (auth_id v)) row (profiles_table d) of
            Inl e \<Rightarrow> (d, submit_error e)
          | Inr rows \<Rightarrow> (d\<lparr>profiles_table := rows\<rparr>, pushed_dashboard)))"
    by (cases caller) (simp_all add: handleSubmit_def row_def)
  have keep: "distinct (map user_id (profiles_table d')) \<and> distinct (map pid (profiles_table d')) \<and>
      ((\<exists>p \<in> set (profiles_table d). user_id p = user_id row) \<longrightarrow>
         length (profiles_table d') = length (profiles_table d))"
  proof (cases caller)
    case None
    then show ?thesis unfolding d'_def hs using inv by simp
  next
    case (Some v)
    show ?thesis
    proof (cases "profiles_upsert (Some (auth_id v)) row (profiles_table d)")
      case (Inl e)
      then show ?thesis unfolding d'_def hs using inv Some by simp
    next
      case (Inr rows)
      from profiles_upsert_invariant [OF _ _ Inr] inv
      show ?thesis unfolding d'_def hs using Some Inr by simp
    qed
  qed
  have once: "length (filter (\<lambda>p. user_id p = P) (profiles_table d')) \<le> 1"
    using keep filter_key_length_le_1 [of user_id "profiles_table d'" P] by blast
  have again: "checkExistingProfile u d = redirect_dashboard \<and>
      length (profiles_table d') = length (profiles_table d) \<and>
      (new_id \<notin> set (map pid (profiles_table d)) \<longrightarrow>
         handleSubmit caller fd new_id now d = (d, submit_error unique_violation))"
    if c: "caller = Some u \<and> (\<exists>p \<in> set (profiles_table d). user_id p = auth_id u)"
  proof -
    from c obtain p where p: "p \<in> set (profiles_table d)" "user_id p = auth_id u" by blast
    have "select_profile_by_user (auth_id u) (profiles_table d) = Inr p"
      using inv p by (simp add: select_profile_by_user_own)
    then have 1: "checkExistingProfile u d = redirect_dashboard"
      by (simp add: checkExistingProfile_def)
    have 2: "length (profiles_table d') = length (profiles_table d)"
      using keep c by (auto simp: row)
    have 3: "handleSubmit caller fd new_id now d = (d, submit_error unique_violation)"
      if "new_id \<notin> set (map pid (profiles_table d))"
    proof -
      from that have "find (\<lambda>q. pid q = pid row) (profiles_table d) = None"
        by (auto simp: find_None_iff row)
      moreover have "user_id row \<in> set (map user_id (profiles_table d))"
        using p c by (force simp: row)
      ultimately have "profiles_upsert (Some (auth_id u)) row (profiles_table d)
          = Inl unique_violation"
        using c by (simp add: profiles_upsert_def profiles_insert_policy_def row)
      then show ?thesis unfolding hs using c by simp
    qed
    from 1 2 3 show ?thesis by blast
  qed
  from keep once again
  show "distinct (map user_id (profiles_table (fst (handleSubmit caller fd new_id now d)))) \<and>
   distinct (map pid (profiles_table (fst (handleSubmit caller fd new_id now d)))) \<and>
   length (filter (\<lambda>p. user_id p = P)
     (profiles_table (fst (handleSubmit caller fd new_id now d)))) \<le> 1 \<and>
   (caller = Some u \<and> (\<exists>p \<in> set (profiles_table d). user_id p = auth_id u) \<longrightarrow>
      checkExistingProfile u d = redirect_dashboard \<and>
      length (profiles_table (fst (handleSubmit caller fd new_id now d)))
        = length (profiles_table d) \<and>
      (new_id \<notin> set (map pid (profiles_table d)) \<longrightarrow>
         handleSubmit caller fd new_id now d = (d, submit_error unique_violation)))"
    unfolding d'_def by blast
qed

lemma sample_db_keys:
  "distinct (map user_id (profiles_table sample_db)) \<and> distinct (map pid (profiles_table sample_db))"
  by (simp add: sample_db_def alice_def bob_def carol_def)

theorem one_profile_per_principal_witness:
  "distinct (map user_id (profiles_table sample_db)) \<and>
   distinct (map pid (profiles_table sample_db)) \<and>
   alice \<in> set (profiles_table sample_db) \<and> user_id alice = auth_id alice_session \<and>
   9 \<notin> set (map pid (profiles_table sample_db)) \<and>
   checkExistingProfile alice_session sample_db = redirect_dashboard \<and>
   handleSubmit (Some alice_session) (formData sample_form) 9 700 sample_db
     = (sample_db, submit_error unique_violation) \<and>
   length (filter (\<lambda>p. user_id p = 11) (profiles_table sample_db)) \<le> 1"
proof -
  have has: "\<exists>p \<in> set (profiles_table sample_db). user_id p = auth_id alice_session"
    by (simp add: sample_db_def alice_def alice_session_def)
  have new: "9 \<notin> set (map pid (profiles_table sample_db))"
    by (simp add: sample_db_def alice_def bob_def carol_def)
  note T = one_profile_per_principal
    [where d = sample_db and caller = "Some alice_session" and u = alice_session
       and fd = "formData sample_form" and new_id = 9 and now = 700 and P = 11,
     THEN mp, OF sample_db_keys]
  have r: "checkExistingProfile alice_session sample_db = redirect_dashboard"
    and s: "handleSubmit (Some alice_session) (formData sample_form) 9 700 sample_db
     = (sample_db, submit_error unique_violation)"
    using T has new by blast+
  have "length (filter (\<lambda>p. user_id p = 11) (profiles_table sample_db)) \<le> 1"
    using T s by simp
  moreover have "alice \<in> set (profiles_table sample_db) \<and> user_id alice = auth_id alice_session"
    by (simp add: sample_db_def alice_def alice_session_def)
  ultimately show ?thesis using sample_db_keys new r s by blast
qed

section \<open>Viewing a profile by id\<close>

lemma select_public_only:
  "select_public_profile_by_id uid i rows =
     single (filter (\<lambda>p. pid p = i \<and> is_public p) rows)"
proof -
  have "(\<lambda>p. profiles_select_policy uid p \<and> pid p = i \<and> is_public p = True)
      = (\<lambda>p. pid p = i \<and> is_public p)"
    by (auto simp: profiles_select_policy_def)
  then show ?thesis by (simp add: select_public_profile_by_id_def)
qed

lemma select_public_found:
  assumes "distinct (map pid rows)" "p \<in> set rows" "is_public p"
  shows "select_public_profile_by_id uid (pid p) rows = Inr p"
proof -
  have "filter (\<lambda>q. pid q = pid p \<and> is_public q) rows
      = filter is_public (filter (\<lambda>q. pid q = pid p) rows)"
    by simp
  also have "\<dots> = [p]"
    using assms by (simp add: filter_key_singleton)
  finally show ?thesis by (simp add: select_public_only single_def)
qed

lemma select_public_Inr:
  assumes "select_public_profile_by_id uid i rows = Inr p"
  shows "p \<in> set rows \<and> pid p = i \<and> is_public p"
proof -
  from assms have "filter (\<lambda>q. pid q = i \<and> is_public q) rows = [p]"
    by (simp add: select_public_only single_Inr_iff)
  then have "p \<in> set (filter (\<lambda>q. pid q = i \<and> is_public q) rows)" by simp
  then show ?thesis by simp
qed

lemma select_public_none:
  assumes "\<forall>q \<in> set rows. pid q = i \<longrightarrow> \<not> is_public q"
  shows "select_public_profile_by_id uid i rows = Inl PGRST116"
proof -
  from assms have "filter (\<lambda>q. pid q = i \<and> is_public q) rows = []"
    by (auto simp: filter_empty_conv)
  then show ?thesis by (simp add: select_public_only single_def)
qed

text \<open>
  C3, as the code has it. The lookup of the profile page returns a profile exactly when a
  row with that id exists and is public, whoever asks. When no public row has the id, be
  it that no row has it or that the row is private, the answer is the no-row error
  \<open>PGRST116\<close> and the page ends in the same state in both cases, for the owner of the
  private row as for everyone else. The answer depends on the public rows only.
\<close>

theorem viewed_profile_public_only:
  "(select_public_profile_by_id uid i rows = Inr p \<longrightarrow>
      p \<in> set rows \<and> pid p = i \<and> is_public p) \<and>
   (distinct (map pid rows) \<and> p \<in> set rows \<and> pid p = i \<and> is_public p \<longrightarrow>
      select_public_profile_by_id uid i rows = Inr p) \<and>
   ((\<forall>q \<in> set rows. pid q = i \<longrightarrow> \<not> is_public q) \<longrightarrow>
      select_public_profile_by_id uid i rows = Inl PGRST116 \<and>
      fetchProfiles i (d\<lparr>profiles_table := rows\<rparr>) st
        = st\<lparr>loading := False, error := FromStore PGRST116\<rparr>) \<and>
   select_public_profile_by_id uid i rows
     = select_public_profile_by_id uid' i (filter is_public rows)"
proof -
  have found: "select_public_profile_by_id uid i rows = Inr p \<longrightarrow>
      p \<in> set rows \<and> pid p = i \<and> is_public p"
    using select_public_Inr [of uid i rows p] by blast
  have public: "distinct (map pid rows) \<and> p \<in> set rows \<and> pid p = i \<and> is_public p \<longrightarrow>
      select_public_profile_by_id uid i rows = Inr p"
    using select_public_found [of rows p uid] by blast
  have hidden: "select_public_profile_by_id uid i rows = Inl PGRST116 \<and>
      fetchProfiles i (d\<lparr>profiles_table := rows\<rparr>) st
        = st\<lparr>loading := False, error := FromStore PGRST116\<rparr>"
    if none: "\<forall>q \<in> set rows. pid q = i \<longrightarrow> \<not> is_public q"
  proof
    show "select_public_profile_by_id uid i rows = Inl PGRST116"
      using none by (rule select_public_none)
    have "select_public_profile_by_id (map_option auth_id (user st)) i rows = Inl PGRST116"
      using none by (rule select_public_none)
    then show "fetchProfiles i (d\<lparr>profiles_table := rows\<rparr>) st
        = st\<lparr>loading := False, error := FromStore PGRST116\<rparr>"
      by (simp add: fetchProfiles_def)
  qed
  have "filter (\<lambda>q. pid q = i \<and> is_public q) (filter is_public rows)
      = filter (\<lambda>q. pid q = i \<and> is_public q) rows"
    by (auto intro: filter_cong)
  then have same: "select_public_profile_by_id uid i rows
     = select_public_profile_by_id uid' i (filter is_public rows)"
    by (simp add: select_public_only)
  from found public hidden same show ?thesis by blast
qed

theorem viewed_profile_public_only_witness:
  "distinct (map pid (profiles_table sample_db)) \<and> alice \<in> set (profiles_table sample_db) \<and>
   is_public alice \<and>
   select_public_profile_by_id None (pid alice) (profiles_table sample_db) = Inr alice \<and>
   select_public_profile_by_id (Some 12) 3 (profiles_table sample_db) = Inl PGRST116 \<and>
   select_public_profile_by_id (Some 12) 4 (profiles_table sample_db) = Inl PGRST116 \<and>
   fetchProfiles 3 sample_db sample_page = fetchProfiles 4 sample_db sample_page"
proof -
  have rows: "profiles_table sample_db = [alice, bob, carol]" by (simp add: sample_db_def)
  have k: "distinct (map pid (profiles_table sample_db))"
    by (simp add: rows alice_def bob_def carol_def)
  have a: "alice \<in> set (profiles_table sample_db) \<and> is_public alice"
    by (simp add: rows alice_def)
  have p3: "\<forall>q \<in> set (profiles_table sample_db). pid q = 3 \<longrightarrow> \<not> is_public q"
    by (simp add: rows alice_def bob_def carol_def)
  have p4: "\<forall>q \<in> set (profiles_table sample_db). pid q = 4 \<longrightarrow> \<not> is_public q"
    by (simp add: rows alice_def bob_def carol_def)
  have d: "sample_db\<lparr>profiles_table := profiles_table sample_db\<rparr> = sample_db" by simp
  have 1: "select_public_profile_by_id None (pid alice) (profiles_table sample_db) = Inr alice"
    using viewed_profile_public_only
      [where uid = None and i = "pid alice" and rows = "profiles_table sample_db" and p = alice]
      k a by blast
  have 3: "select_public_profile_by_id (Some 12) 3 (profiles_table sample_db) = Inl PGRST116"
    "fetchProfiles 3 sample_db sample_page
       = sample_page\<lparr>loading := False, error := FromStore PGRST116\<rparr>"
    using viewed_profile_public_only
      [where uid = "Some 12" and i = 3 and rows = "profiles_table sample_db" and d = sample_db
         and st = sample_page] p3
    unfolding d by blast+
  have 4: "select_public_profile_by_id (Some 12) 4 (profiles_table sample_db) = Inl PGRST116"
    "fetchProfiles 4 sample_db sample_page
       = sample_page\<lparr>loading := False, error := FromStore PGRST116\<rparr>"
    using viewed_profile_public_only
      [where uid = "Some 12" and i = 4 and rows = "profiles_table sample_db" and d = sample_db
         and st = sample_page] p4
    unfolding d by blast+
  show ?thesis using k a 1 3 4 by simp
qed

text \<open>
  The claim C3 lets the owner see the own private profile. Carol's profile is private;
  Carol, signed in, opens its page: the policies show her the row, the lookup answers with
  the no-row error and the page has no profile to show.
\<close>

theorem owner_private_profile_counterexample:
  "carol \<in> set (profiles_table sample_db) \<and> user_id carol = auth_id carol_session \<and>
   is_public carol = False \<and> profiles_select_policy (Some (auth_id carol_session)) carol \<and>
   select_public_profile_by_id (Some (auth_id carol_session)) (pid carol)
     (profiles_table sample_db) = Inl PGRST116 \<and>
   fetchProfiles (pid carol) sample_db
     (sample_page\<lparr>user := Some carol_session, profile := None, currentUserProfile := None\<rparr>)
     = sample_page\<lparr>user := Some carol_session, profile := None, currentUserProfile := None,
                    loading := False, error := FromStore PGRST116\<rparr>"
  by code_simp

end
